theory Spec2Isabelle
  imports Complex_Main
begin

section \<open>JavaScript numbers\<close>

text \<open>
  The campaign manager computes with JavaScript numbers. A number is modelled as an exact
  real or one of the three special values; rounding error of doubles and the sign of
  zero are left out (every zero divisor in \<open>pick\<close> is the result of a \<open>reduce\<close> that
  starts from \<open>0\<close>, which is never negative zero). The properties below are stated
  through \<open>js_add\<close>, \<open>js_div\<close> and the other operations, not through the real sums
  they stand for, and the sample inputs are ones on which doubles give the same results.
\<close>

datatype jsnum = Fin real | PInf | NInf | NaN

fun js_neg :: "jsnum \<Rightarrow> jsnum" where
  "js_neg (Fin a) = Fin (- a)"
| "js_neg PInf = NInf"
| "js_neg NInf = PInf"
| "js_neg NaN = NaN"

fun js_add :: "jsnum \<Rightarrow> jsnum \<Rightarrow> jsnum" where
  "js_add (Fin a) (Fin b) = Fin (a + b)"
| "js_add (Fin a) PInf = PInf"
| "js_add (Fin a) NInf = NInf"
| "js_add PInf (Fin b) = PInf"
| "js_add PInf PInf = PInf"
| "js_add PInf NInf = NaN"
| "js_add NInf (Fin b) = NInf"
| "js_add NInf NInf = NInf"
| "js_add NInf PInf = NaN"
| "js_add NaN y = NaN"
| "js_add x NaN = NaN"

definition js_sub :: "jsnum \<Rightarrow> jsnum \<Rightarrow> jsnum" where
  "js_sub x y = js_add x (js_neg y)"

fun js_sign :: "jsnum \<Rightarrow> real" where
  "js_sign (Fin a) = sgn a"
| "js_sign PInf = 1"
| "js_sign NInf = - 1"
| "js_sign NaN = 0"

definition inf_of_sign :: "real \<Rightarrow> jsnum" where
  "inf_of_sign s = (if 0 < s then PInf else if s < 0 then NInf else NaN)"

fun js_mul :: "jsnum \<Rightarrow> jsnum \<Rightarrow> jsnum" where
  "js_mul (Fin a) (Fin b) = Fin (a * b)"
| "js_mul NaN y = NaN"
| "js_mul x NaN = NaN"
| "js_mul x y = inf_of_sign (js_sign x * js_sign y)"

fun js_div :: "jsnum \<Rightarrow> jsnum \<Rightarrow> jsnum" where
  "js_div (Fin a) (Fin b) = (if b = 0 then inf_of_sign (sgn a) else Fin (a / b))"
| "js_div NaN y = NaN"
| "js_div x NaN = NaN"
| "js_div (Fin a) y = Fin 0"
| "js_div x (Fin b) = inf_of_sign (js_sign x * (if b < 0 then - 1 else 1))"
| "js_div x y = NaN"

text \<open>\<open>Math.round\<close> rounds to the nearest integer, a half towards plus infinity.\<close>

fun js_round :: "jsnum \<Rightarrow> jsnum" where
  "js_round (Fin a) = Fin (of_int \<lfloor>a + 1 / 2\<rfloor>)"
| "js_round x = x"

fun js_floor :: "jsnum \<Rightarrow> jsnum" where
  "js_floor (Fin a) = Fin (of_int \<lfloor>a\<rfloor>)"
| "js_floor x = x"

fun js_lt :: "jsnum \<Rightarrow> jsnum \<Rightarrow> bool" where
  "js_lt (Fin a) (Fin b) = (a < b)"
| "js_lt NaN y = False"
| "js_lt x NaN = False"
| "js_lt PInf y = False"
| "js_lt x NInf = False"
| "js_lt x y = True"

fun js_le :: "jsnum \<Rightarrow> jsnum \<Rightarrow> bool" where
  "js_le (Fin a) (Fin b) = (a \<le> b)"
| "js_le NaN y = False"
| "js_le x NaN = False"
| "js_le PInf PInf = True"
| "js_le NInf NInf = True"
| "js_le PInf y = False"
| "js_le x NInf = False"
| "js_le x y = True"

definition js_gt :: "jsnum \<Rightarrow> jsnum \<Rightarrow> bool" where
  "js_gt x y = js_lt y x"

definition js_ge :: "jsnum \<Rightarrow> jsnum \<Rightarrow> bool" where
  "js_ge x y = js_le y x"

text \<open>
  A callback declared \<open>boolean\<close> may still fall off its end and give \<open>undefined\<close>;
  \<open>!result\<close> then tests truthiness.
\<close>

datatype jsbool = JTrue | JFalse | JUndefined

fun truthy :: "jsbool \<Rightarrow> bool" where
  "truthy JTrue = True"
| "truthy JFalse = False"
| "truthy JUndefined = False"

section \<open>Data model\<close>

datatype DatabaseCampaignBudgetType = BudgetClick | BudgetView | BudgetNone

record DatabaseCampaignBudget =
  btotal :: jsnum
  used :: jsnum
  btype :: DatabaseCampaignBudgetType
  cost :: jsnum

datatype DatabaseCampaignLogAction = UpdateValue | AddBudget | Toggle | ClearStatistics

record DatabaseCampaignLog =
  log_action :: DatabaseCampaignLogAction
  log_when :: int
  log_who :: string
  log_data :: "string option"

text \<open>
  What a key of a \<open>geo\<close> object can hold at run time: a number, as its type has it, or
  the string that \<open>incrementStatistic\<close> stores there when it adds 1 to a value that is
  not a number.
\<close>

datatype jsval = Num jsnum | Str string

text \<open>
  One of \<open>stats.clicks\<close> and \<open>stats.views\<close>. \<open>geo\<close> holds the own properties of the
  object.
\<close>

record StatisticsCount =
  stat_total :: jsnum
  geo :: "string \<rightharpoonup> jsval"

record DatabaseCampaignStatistics =
  clicks :: StatisticsCount
  views :: StatisticsCount

datatype StatisticsKey = KeyClicks | KeyViews

record ChatButton =
  button_label :: string
  button_id :: "string option"
  button_emoji :: "string option"
  button_url :: "string option"
  button_disabled :: "bool option"

record DatabaseCampaignSettings =
  title :: string
  description :: string
  color :: "string option"
  image :: "string option"
  thumbnail :: "string option"
  buttons :: "ChatButton list option"

record DatabaseCampaignFilterCall =
  call_name :: string
  call_data :: "string list"

record DatabaseCampaign =
  cid :: string
  name :: string
  created :: string
  active :: bool
  budget :: DatabaseCampaignBudget
  logs :: "DatabaseCampaignLog list"
  members :: "string list"
  filters :: "DatabaseCampaignFilterCall list option"
  link :: string
  settings :: DatabaseCampaignSettings
  stats :: DatabaseCampaignStatistics

text \<open>
  \<open>CreateCampaignOptions\<close>: a campaign without \<open>stats\<close>, \<open>active\<close>, \<open>id\<close>,
  \<open>filters\<close> and \<open>created\<close>. The type is structural: an object with further keys,
  a whole \<open>DatabaseCampaign\<close> for one, is a value of it. Of the five keys left out,
  \<open>create\<close> writes \<open>active\<close> and \<open>stats\<close> after the spread of the options, so
  whatever the object carries under them is lost; \<open>o_id\<close>, \<open>o_created\<close> and
  \<open>o_filters\<close> are what it carries under the other three, \<open>None\<close> for a missing key.
\<close>

record CreateCampaignOptions =
  o_name :: string
  o_budget :: DatabaseCampaignBudget
  o_logs :: "DatabaseCampaignLog list"
  o_members :: "string list"
  o_link :: string
  o_settings :: DatabaseCampaignSettings
  o_id :: "string option"
  o_created :: "string option"
  o_filters :: "DatabaseCampaignFilterCall list option option"

text \<open>\<open>Partial<DatabaseCampaign>\<close>: every field may be left out.\<close>

record CampaignChanges =
  ch_id :: "string option"
  ch_name :: "string option"
  ch_created :: "string option"
  ch_active :: "bool option"
  ch_budget :: "DatabaseCampaignBudget option"
  ch_logs :: "DatabaseCampaignLog list option"
  ch_members :: "string list option"
  ch_filters :: "DatabaseCampaignFilterCall list option option"
  ch_link :: "string option"
  ch_settings :: "DatabaseCampaignSettings option"
  ch_stats :: "DatabaseCampaignStatistics option"

definition no_changes :: CampaignChanges where
  "no_changes = \<lparr>ch_id = None, ch_name = None, ch_created = None, ch_active = None,
     ch_budget = None, ch_logs = None, ch_members = None, ch_filters = None, ch_link = None,
     ch_settings = None, ch_stats = None\<rparr>"

text \<open>\<open>Partial<DatabaseCampaignStatistics["clicks"]>\<close>.\<close>

record StatisticsUpdates =
  u_total :: "jsnum option"
  u_geo :: "(string \<rightharpoonup> jsval) option"

subsection \<open>The viewer\<close>

record DatabaseUser =
  user_id :: string
  country :: "string option"

record DatabaseGuild =
  tags :: "string list option"

record DatabaseInfo =
  user :: DatabaseUser
  guild :: "DatabaseGuild option"

text \<open>Of the bot, the filters use \<open>bot.db.settings.get(user, "general:language")\<close> only.\<close>

record Bot =
  general_language :: "DatabaseUser \<Rightarrow> string"

record DatabaseCampaignFilterContext =
  data :: "string list"
  db :: DatabaseInfo
  bot :: Bot

record DatabaseCampaignFilter =
  filter_name :: string
  execute :: "DatabaseCampaignFilterContext \<Rightarrow> jsbool"

section \<open>Filters\<close>

definition of_boolean :: "bool \<Rightarrow> jsbool" where
  "of_boolean b = (if b then JTrue else JFalse)"

text \<open>\<open>!country\<close> holds for a missing country and for the empty string.\<close>

definition countries_execute :: "DatabaseCampaignFilterContext \<Rightarrow> jsbool" where
  "countries_execute ctx =
     (case country (user (db ctx)) of
        None \<Rightarrow> JFalse
      | Some c \<Rightarrow> if c = [] then JFalse else of_boolean (c \<in> set (data ctx)))"

text \<open>The second \<open>if\<close> has no \<open>else\<close>: the callback then returns \<open>undefined\<close>.\<close>

definition tags_execute :: "DatabaseCampaignFilterContext \<Rightarrow> jsbool" where
  "tags_execute ctx =
     (case guild (db ctx) of
        None \<Rightarrow> JFalse
      | Some g \<Rightarrow>
          (case tags g of
             None \<Rightarrow> JFalse
           | Some ts \<Rightarrow> if list_ex (\<lambda>t. t \<in> set (data ctx)) ts then JTrue else JUndefined))"

definition languages_execute :: "DatabaseCampaignFilterContext \<Rightarrow> jsbool" where
  "languages_execute ctx =
     of_boolean (general_language (bot ctx) (user (db ctx)) \<in> set (data ctx))"

definition DatabaseCampaignFilters :: "DatabaseCampaignFilter list" where
  "DatabaseCampaignFilters =
     [\<lparr>filter_name = ''countries'', execute = countries_execute\<rparr>,
      \<lparr>filter_name = ''tags'', execute = tags_execute\<rparr>,
      \<lparr>filter_name = ''languages'', execute = languages_execute\<rparr>]"

text \<open>The loop of \<open>executeFilters\<close> over \<open>campaign.filters\<close>.\<close>

fun run_filters :: "Bot \<Rightarrow> DatabaseInfo \<Rightarrow> DatabaseCampaignFilterCall list \<Rightarrow> bool" where
  "run_filters b d [] = True"
| "run_filters b d (call # rest) =
     (case find (\<lambda>f. filter_name f = call_name call) DatabaseCampaignFilters of
        None \<Rightarrow> run_filters b d rest
      | Some f \<Rightarrow>
          if \<not> truthy (execute f \<lparr>data = call_data call, db = d, bot = b\<rparr>) then False
          else run_filters b d rest)"

definition executeFilters :: "Bot \<Rightarrow> DatabaseCampaign \<Rightarrow> DatabaseInfo \<Rightarrow> bool" where
  "executeFilters b campaign d =
     (case filters campaign of
        None \<Rightarrow> True
      | Some fs \<Rightarrow> if length fs = 0 then True else run_filters b d fs)"

section \<open>Selection\<close>

definition available :: "DatabaseCampaign \<Rightarrow> bool" where
  "available campaign = js_ge (btotal (budget campaign)) (used (budget campaign))"

text \<open>The two clamp statements, one after the other.\<close>

definition clamp_percent :: "jsnum \<Rightarrow> jsnum" where
  "clamp_percent percent =
     (let p1 = (if js_gt percent (Fin 20) then js_sub (Fin 20) (js_sub percent (Fin 20))
                else percent)
      in if js_lt p1 (Fin 5) then js_add (Fin 5) (js_sub (Fin 10) p1) else p1)"

definition raw_percent :: "jsnum \<Rightarrow> DatabaseCampaign \<Rightarrow> jsnum" where
  "raw_percent totalBudget campaign =
     js_round (js_mul (js_div (btotal (budget campaign)) totalBudget) (Fin 100))"

text \<open>
  One pass through the body of the \<open>for\<close> loop of \<open>pick\<close>, from the values of \<open>start\<close>
  and \<open>end\<close> before it: whether the campaign wins, and \<open>start\<close> and \<open>end\<close> after
  the pass (\<open>start\<close> as it would be after \<open>start += percent\<close>, which a winner does not
  reach).
\<close>

record WalkStep =
  wins :: bool
  start_after :: jsnum
  end_after :: jsnum

definition walk_step :: "jsnum \<Rightarrow> jsnum \<Rightarrow> jsnum \<Rightarrow> jsnum \<Rightarrow> DatabaseCampaign \<Rightarrow> WalkStep" where
  "walk_step random totalBudget start end campaign =
     (let percent = raw_percent totalBudget campaign;
          end' = js_add end percent;
          percent' = clamp_percent percent
      in \<lparr>wins = (js_gt random start \<and> js_le random end'),
          start_after = js_add start percent',
          end_after = end'\<rparr>)"

fun walk :: "jsnum \<Rightarrow> jsnum \<Rightarrow> jsnum \<Rightarrow> jsnum \<Rightarrow> DatabaseCampaign list \<Rightarrow> DatabaseCampaign option" where
  "walk random totalBudget start end [] = None"
| "walk random totalBudget start end (campaign # rest) =
     (let s = walk_step random totalBudget start end campaign
      in if wins s then Some campaign
         else walk random totalBudget (start_after s) (end_after s) rest)"

definition eligible :: "Bot \<Rightarrow> DatabaseInfo \<Rightarrow> DatabaseCampaign list \<Rightarrow> DatabaseCampaign list" where
  "eligible b d cs = filter (\<lambda>c. active c \<and> available c \<and> executeFilters b c d) cs"

definition total_budget :: "DatabaseCampaign list \<Rightarrow> jsnum" where
  "total_budget cs =
     foldl (\<lambda>previous campaign. js_add previous (btotal (budget campaign))) (Fin 0) cs"

text \<open>\<open>Math.floor(Math.random() * 100) + 1\<close>, from the value \<open>u\<close> that \<open>Math.random()\<close> gave.\<close>

definition random_draw :: "real \<Rightarrow> jsnum" where
  "random_draw u = js_add (js_floor (js_mul (Fin u) (Fin 100))) (Fin 1)"

text \<open>
  \<open>pick\<close>, from the list that \<open>all()\<close> returned and the value of \<open>Math.random()\<close>.
  No statement of it throws: a division by zero gives an infinity or NaN.
\<close>

definition pick :: "Bot \<Rightarrow> DatabaseCampaign list \<Rightarrow> real \<Rightarrow> DatabaseInfo \<Rightarrow> DatabaseCampaign option" where
  "pick b all u d =
     (let sorted' = eligible b d all;
          totalBudget = total_budget sorted';
          random = random_draw u
      in walk random totalBudget (Fin 0) (Fin 0) sorted')"

section \<open>The in-memory list and the store\<close>

text \<open>
  A JavaScript array: its elements, and the properties set on the array object under a
  key that is not an index.
\<close>

record 'a js_array =
  elems :: "'a list"
  props :: "int \<rightharpoonup> 'a"

fun findIndex :: "('a \<Rightarrow> bool) \<Rightarrow> 'a list \<Rightarrow> int" where
  "findIndex p [] = - 1"
| "findIndex p (x # xs) =
     (if p x then 0 else (let i = findIndex p xs in if i = - 1 then - 1 else i + 1))"

text \<open>
  \<open>array[i] = v\<close> for a key \<open>i\<close> that \<open>findIndex\<close> returned: an index of an element
  replaces that element; \<open>-1\<close> is no index, and the assignment sets the property
  \<open>"-1"\<close> of the array object, leaving elements and length alone. (\<open>findIndex\<close> gives no
  index beyond the length, where JavaScript would extend the array.)
\<close>

definition array_set :: "'a js_array \<Rightarrow> int \<Rightarrow> 'a \<Rightarrow> 'a js_array" where
  "array_set arr i v =
     (if 0 \<le> i \<and> nat i < length (elems arr) then arr\<lparr>elems := (elems arr)[nat i := v]\<rparr>
      else arr\<lparr>props := (props arr)(i \<mapsto> v)\<rparr>)"

definition array_push :: "'a js_array \<Rightarrow> 'a \<Rightarrow> 'a js_array" where
  "array_push arr v = arr\<lparr>elems := elems arr @ [v]\<rparr>"

text \<open>
  The state the managers share: the list \<open>campaigns\<close> of \<open>AppCampaignManager\<close> and the
  records of the database (cache and durable store), by campaign id.
\<close>

record AppState =
  campaigns :: "DatabaseCampaign js_array"
  store :: "string \<rightharpoonup> DatabaseCampaign"

text \<open>The object spread \<open>{ ...campaign, ...changes }\<close>.\<close>

definition apply_changes :: "DatabaseCampaign \<Rightarrow> CampaignChanges \<Rightarrow> DatabaseCampaign" where
  "apply_changes c ch =
     \<lparr>cid = (case ch_id ch of None \<Rightarrow> cid c | Some v \<Rightarrow> v),
      name = (case ch_name ch of None \<Rightarrow> name c | Some v \<Rightarrow> v),
      created = (case ch_created ch of None \<Rightarrow> created c | Some v \<Rightarrow> v),
      active = (case ch_active ch of None \<Rightarrow> active c | Some v \<Rightarrow> v),
      budget = (case ch_budget ch of None \<Rightarrow> budget c | Some v \<Rightarrow> v),
      logs = (case ch_logs ch of None \<Rightarrow> logs c | Some v \<Rightarrow> v),
      members = (case ch_members ch of None \<Rightarrow> members c | Some v \<Rightarrow> v),
      filters = (case ch_filters ch of None \<Rightarrow> filters c | Some v \<Rightarrow> v),
      link = (case ch_link ch of None \<Rightarrow> link c | Some v \<Rightarrow> v),
      settings = (case ch_settings ch of None \<Rightarrow> settings c | Some v \<Rightarrow> v),
      stats = (case ch_stats ch of None \<Rightarrow> stats c | Some v \<Rightarrow> v)\<rparr>"

text \<open>
  Modelled from the spec: \<open>db.queue.update\<close>, whose code is not among the sources. The
  spec's store has \<open>update(id, partialChanges) -> Campaign\<close> with merge semantics, not
  replace: the changes are merged into the campaign, the result is stored under the
  campaign's id and returned.
\<close>

definition queue_update ::
  "(string \<rightharpoonup> DatabaseCampaign) \<Rightarrow> DatabaseCampaign \<Rightarrow> CampaignChanges
     \<Rightarrow> (string \<rightharpoonup> DatabaseCampaign) \<times> DatabaseCampaign" where
  "queue_update st campaign changes =
     (let updated = apply_changes campaign changes in (st(cid campaign \<mapsto> updated), updated))"

text \<open>
  Modelled from the spec: \<open>db.fetchFromCacheOrDatabase\<close>, not among the sources; the
  spec's \<open>getById(id) -> Campaign | none\<close>.
\<close>

definition fetchFromCacheOrDatabase :: "(string \<rightharpoonup> DatabaseCampaign) \<Rightarrow> string \<Rightarrow> DatabaseCampaign option" where
  "fetchFromCacheOrDatabase st i = st i"

text \<open>
  Modelled from the spec: \<open>db.createFromCacheOrDatabase\<close>, not among the sources; it
  stores the record it is given and returns it.
\<close>

definition createFromCacheOrDatabase ::
  "(string \<rightharpoonup> DatabaseCampaign) \<Rightarrow> DatabaseCampaign
     \<Rightarrow> (string \<rightharpoonup> DatabaseCampaign) \<times> DatabaseCampaign" where
  "createFromCacheOrDatabase st d = (st(cid d \<mapsto> d), d)"

section \<open>AppCampaignManager\<close>

definition app_update :: "AppState \<Rightarrow> DatabaseCampaign \<Rightarrow> CampaignChanges \<Rightarrow> AppState \<times> DatabaseCampaign" where
  "app_update s campaign changes =
     (let (st', updated) = queue_update (store s) campaign changes;
          index = findIndex (\<lambda>c. cid c = cid campaign) (elems (campaigns s))
      in (\<lparr>campaigns = array_set (campaigns s) index updated, store = st'\<rparr>, updated))"

section \<open>ClusterCampaignManager\<close>

text \<open>
  The methods of the cluster manager reach the list through \<open>db.eval\<close>, which runs its
  callback on the app; the model passes the shared state. The metrics sink and the
  rendering of a campaign are outside it.
\<close>

definition all_campaigns :: "AppState \<Rightarrow> DatabaseCampaign list" where
  "all_campaigns s = elems (campaigns s)"

definition get :: "AppState \<Rightarrow> string \<Rightarrow> DatabaseCampaign option" where
  "get s i = fetchFromCacheOrDatabase (store s) i"

definition zero_stats :: DatabaseCampaignStatistics where
  "zero_stats = \<lparr>clicks = \<lparr>stat_total = Fin 0, geo = Map.empty\<rparr>,
                 views = \<lparr>stat_total = Fin 0, geo = Map.empty\<rparr>\<rparr>"

text \<open>
  \<open>create\<close>, from the value of \<open>randomUUID()\<close> and of \<open>new Date().toISOString()\<close>.
  The options are spread after \<open>filters\<close>, \<open>created\<close> and \<open>id\<close>, which a key of
  the options replaces, and before \<open>active\<close> and \<open>stats\<close>. Nothing compares the id
  with the ids in use.
\<close>

definition create :: "AppState \<Rightarrow> string \<Rightarrow> string \<Rightarrow> CreateCampaignOptions \<Rightarrow> AppState \<times> DatabaseCampaign" where
  "create s uuid now options =
     (let data = \<lparr>cid = (case o_id options of None \<Rightarrow> uuid | Some v \<Rightarrow> v),
                  name = o_name options,
                  created = (case o_created options of None \<Rightarrow> now | Some v \<Rightarrow> v),
                  active = False,
                  budget = o_budget options, logs = o_logs options,
                  members = o_members options,
                  filters = (case o_filters options of None \<Rightarrow> None | Some v \<Rightarrow> v),
                  link = o_link options,
                  settings = o_settings options, stats = zero_stats\<rparr>;
          (st', campaign) = createFromCacheOrDatabase (store s) data
      in (\<lparr>campaigns = array_push (campaigns s) campaign, store = st'\<rparr>, campaign))"

definition update :: "AppState \<Rightarrow> DatabaseCampaign \<Rightarrow> CampaignChanges \<Rightarrow> AppState \<times> DatabaseCampaign" where
  "update s campaign changes = app_update s campaign changes"

definition clearStatistics :: "AppState \<Rightarrow> DatabaseCampaign \<Rightarrow> AppState \<times> DatabaseCampaign" where
  "clearStatistics s campaign = update s campaign (no_changes\<lparr>ch_stats := Some zero_stats\<rparr>)"

definition stat_get :: "DatabaseCampaignStatistics \<Rightarrow> StatisticsKey \<Rightarrow> StatisticsCount" where
  "stat_get st k = (case k of KeyClicks \<Rightarrow> clicks st | KeyViews \<Rightarrow> views st)"

definition stat_put :: "DatabaseCampaignStatistics \<Rightarrow> StatisticsKey \<Rightarrow> StatisticsCount \<Rightarrow> DatabaseCampaignStatistics" where
  "stat_put st k v = (case k of KeyClicks \<Rightarrow> st\<lparr>clicks := v\<rparr> | KeyViews \<Rightarrow> st\<lparr>views := v\<rparr>)"

text \<open>
  \<open>updateStatistics\<close>: the counter of the type is the old one overwritten by the
  updates, with \<open>geo\<close> the old map overwritten key by key by the map of the updates.
\<close>

definition updateStatistics ::
  "AppState \<Rightarrow> DatabaseCampaign \<Rightarrow> StatisticsKey \<Rightarrow> StatisticsUpdates \<Rightarrow> AppState \<times> DatabaseCampaign" where
  "updateStatistics s campaign k updates =
     (let old = stat_get (stats campaign) k;
          updated = stat_put (stats campaign) k
            \<lparr>stat_total = (case u_total updates of None \<Rightarrow> stat_total old | Some t \<Rightarrow> t),
             geo = geo old ++ (case u_geo updates of None \<Rightarrow> Map.empty | Some g \<Rightarrow> g)\<rparr>
      in update s campaign (no_changes\<lparr>ch_stats := Some updated\<rparr>))"

text \<open>
  \<open>geo\<close> is a plain object, and \<open>geo[country]\<close> reads through its prototype: under
  the names of the properties of \<open>Object.prototype\<close> a key that the object does not own
  gives the inherited function, or the prototype itself for \<open>__proto__\<close>.
  \<open>inherited\<close> is the text that \<open>+ 1\<close> turns that value into, \<open>None\<close> for a name
  that nothing is inherited under.
\<close>

definition prototype_methods :: "string list" where
  "prototype_methods =
     [''__defineGetter__'', ''__defineSetter__'', ''hasOwnProperty'', ''__lookupGetter__'',
      ''__lookupSetter__'', ''isPrototypeOf'', ''propertyIsEnumerable'', ''toString'',
      ''valueOf'', ''toLocaleString'']"

definition inherited :: "string \<Rightarrow> string option" where
  "inherited key =
     (if key = ''__proto__'' then Some ''[object Object]''
      else if key = ''constructor'' then Some ''function Object() { [native code] }''
      else if key \<in> set prototype_methods then Some (''function '' @ key @ ''() { [native code] }'')
      else None)"

text \<open>Truthiness of a value: zero, NaN and the empty string are falsy.\<close>

fun js_truthy :: "jsval \<Rightarrow> bool" where
  "js_truthy (Num (Fin a)) = (a \<noteq> 0)"
| "js_truthy (Num NaN) = False"
| "js_truthy (Num n) = True"
| "js_truthy (Str t) = (t \<noteq> [])"

text \<open>\<open>value + 1\<close>: a sum for a number, a concatenation for a string.\<close>

fun plus_one :: "jsval \<Rightarrow> jsval" where
  "plus_one (Num n) = Num (js_add n (Fin 1))"
| "plus_one (Str t) = Str (t @ ''1'')"

text \<open>The expression \<open>geo?.[country] ? geo[country] + 1 : 1\<close>; an inherited value is truthy.\<close>

definition next_count :: "(string \<rightharpoonup> jsval) \<Rightarrow> string \<Rightarrow> jsval" where
  "next_count g key =
     (case g key of
        Some v \<Rightarrow> if js_truthy v then plus_one v else Num (Fin 1)
      | None \<Rightarrow> (case inherited key of Some t \<Rightarrow> Str (t @ ''1'') | None \<Rightarrow> Num (Fin 1)))"

text \<open>
  \<open>updates.geo[country] = value\<close> on the fresh object \<open>{}\<close>: under \<open>__proto__\<close> the
  assignment runs the inherited setter, which ignores a number and a string, and the
  object gets no key; under any other name it gets the key.
\<close>

definition fresh_geo :: "string \<Rightarrow> jsval \<Rightarrow> (string \<rightharpoonup> jsval)" where
  "fresh_geo key v = (if key = ''__proto__'' then Map.empty else [key \<mapsto> v])"

definition incrementStatistic ::
  "AppState \<Rightarrow> DatabaseCampaign \<Rightarrow> StatisticsKey \<Rightarrow> DatabaseInfo \<Rightarrow> AppState \<times> DatabaseCampaign" where
  "incrementStatistic s campaign k d =
     (let old = stat_get (stats campaign) k;
          g = (case country (user d) of
                 None \<Rightarrow> Map.empty
               | Some c \<Rightarrow> fresh_geo c (next_count (geo old) c));
          updates = \<lparr>u_total = Some (js_add (stat_total old) (Fin 1)), u_geo = Some g\<rparr>
      in updateStatistics s campaign k updates)"

definition incrementUsage ::
  "AppState \<Rightarrow> DatabaseCampaign \<Rightarrow> DatabaseCampaignBudgetType \<Rightarrow> AppState \<times> DatabaseCampaign" where
  "incrementUsage s campaign t =
     (if btype (budget campaign) \<noteq> t then (s, campaign)
      else let updated = js_add (used (budget campaign)) (js_div (cost (budget campaign)) (Fin 1000))
           in update s campaign (no_changes\<lparr>ch_budget := Some ((budget campaign)\<lparr>used := updated\<rparr>)\<rparr>))"

text \<open>\<open>log\<close>, from the value of \<open>Date.now()\<close>.\<close>

definition log ::
  "AppState \<Rightarrow> int \<Rightarrow> DatabaseCampaign \<Rightarrow> DatabaseCampaignLogAction \<Rightarrow> string \<Rightarrow> string option
     \<Rightarrow> AppState \<times> DatabaseCampaign" where
  "log s now campaign a who d =
     update s campaign (no_changes\<lparr>ch_logs := Some (logs campaign @
        [\<lparr>log_action = a, log_when = now, log_who = who, log_data = d\<rparr>])\<rparr>)"

text \<open>\<open>ad\<close>, up to the rendering: the campaign it renders, if any.\<close>

definition ad :: "Bot \<Rightarrow> AppState \<Rightarrow> real \<Rightarrow> DatabaseInfo \<Rightarrow> AppState \<times> DatabaseCampaign option" where
  "ad b s u d =
     (case pick b (all_campaigns s) u d of
        None \<Rightarrow> (s, None)
      | Some campaign \<Rightarrow>
          (let (s1, c1) = incrementStatistic s campaign KeyViews d;
               (s2, c2) = incrementUsage s1 c1 BudgetView
           in (s2, Some c2)))"

text \<open>
  The branch \<open>action === "link"\<close> of \<open>handleInteraction\<close>, up to the building of the
  response: the campaign whose link the response shows, if any. \<open>raw[1]\<close> is the
  campaign id.
\<close>

definition handleInteraction_link :: "AppState \<Rightarrow> string list \<Rightarrow> AppState \<times> DatabaseCampaign option" where
  "handleInteraction_link s raw =
     (case (if 1 < length raw then get s (raw ! 1) else None) of
        None \<Rightarrow> (s, None)
      | Some campaign \<Rightarrow>
          (let (s', c') = incrementUsage s campaign BudgetClick in (s', Some c')))"

section \<open>The walk, step by step\<close>

text \<open>
  The passes of the loop of \<open>pick\<close> over the whole list, as they would be were no
  campaign to win: the walk ends without a winner exactly when no pass wins.
\<close>

fun walk_trace :: "jsnum \<Rightarrow> jsnum \<Rightarrow> jsnum \<Rightarrow> jsnum \<Rightarrow> DatabaseCampaign list \<Rightarrow> WalkStep list" where
  "walk_trace random totalBudget start end [] = []"
| "walk_trace random totalBudget start end (campaign # rest) =
     (let s = walk_step random totalBudget start end campaign
      in s # walk_trace random totalBudget (start_after s) (end_after s) rest)"

section \<open>Sample data\<close>

definition demo_campaign :: "string \<Rightarrow> real \<Rightarrow> DatabaseCampaign" where
  "demo_campaign i t =
     \<lparr>cid = i, name = i, created = ''2023-07-01T00:00:00.000Z'', active = True,
      budget = \<lparr>btotal = Fin t, used = Fin 0, btype = BudgetView, cost = Fin 500\<rparr>,
      logs = [], members = [], filters = None, link = ''https://example.com'',
      settings = \<lparr>title = i, description = [], color = None, image = None, thumbnail = None,
                  buttons = None\<rparr>,
      stats = zero_stats\<rparr>"

definition demo_info :: DatabaseInfo where
  "demo_info = \<lparr>user = \<lparr>user_id = ''u1'', country = Some ''DE''\<rparr>,
                guild = Some \<lparr>tags = Some [''gaming'', ''art'']\<rparr>\<rparr>"

definition demo_bot :: Bot where
  "demo_bot = \<lparr>general_language = (\<lambda>u. ''en'')\<rparr>"

definition demo_filtered :: DatabaseCampaign where
  "demo_filtered = (demo_campaign ''f'' 100)
     \<lparr>budget := \<lparr>btotal = Fin 100, used = Fin 100, btype = BudgetClick, cost = Fin 500\<rparr>,
      filters := Some [\<lparr>call_name = ''countries'', call_data = [''DE'', ''FR'']\<rparr>]\<rparr>"

definition demo_state :: AppState where
  "demo_state = \<lparr>campaigns = \<lparr>elems = [demo_filtered], props = Map.empty\<rparr>,
                 store = [''f'' \<mapsto> demo_filtered]\<rparr>"

definition demo_viewed :: DatabaseCampaign where
  "demo_viewed = (demo_campaign ''v'' 40)
     \<lparr>logs := [\<lparr>log_action = Toggle, log_when = 1688169600000, log_who = ''42'', log_data = None\<rparr>],
      stats := \<lparr>clicks = \<lparr>stat_total = Fin 3,
                          geo = [''DE'' \<mapsto> Num (Fin 2), ''FR'' \<mapsto> Num (Fin 1)]\<rparr>,
                views = \<lparr>stat_total = Fin 7,
                         geo = [''DE'' \<mapsto> Num (Fin 4), ''US'' \<mapsto> Num (Fin 3),
                                ''XX'' \<mapsto> Num NaN]\<rparr>\<rparr>\<rparr>"

definition demo_options :: CreateCampaignOptions where
  "demo_options =
     \<lparr>o_name = ''spring'', o_budget = \<lparr>btotal = Fin 50, used = Fin 0, btype = BudgetView, cost = Fin 2\<rparr>,
      o_logs = [\<lparr>log_action = AddBudget, log_when = 1688169600000, log_who = ''42'', log_data = None\<rparr>],
      o_members = [''42''], o_link = ''https://example.com'',
      o_settings = \<lparr>title = ''Spring'', description = ''Sale'', color = None, image = None,
                    thumbnail = None, buttons = None\<rparr>,
      o_id = None, o_created = None, o_filters = None\<rparr>"

text \<open>Options made from a campaign that is held: they carry its id.\<close>

definition demo_copy :: CreateCampaignOptions where
  "demo_copy = demo_options\<lparr>o_id := Some ''f''\<rparr>"

text \<open>A campaign with a negative budget, still available: \<open>-50 >= -60\<close>.\<close>

definition demo_negative :: DatabaseCampaign where
  "demo_negative = (demo_campaign ''n'' (- 50))
     \<lparr>budget := \<lparr>btotal = Fin (- 50), used = Fin (- 60), btype = BudgetView, cost = Fin 500\<rparr>\<rparr>"

definition demo_uuid :: string where
  "demo_uuid = ''7c9e6679-7425-40de-944b-e07fc1f90ae7''"

definition demo_now :: string where
  "demo_now = ''2023-07-01T00:00:00.000Z''"

text \<open>A state that holds a campaign under the id that \<open>demo_uuid\<close> is.\<close>

definition demo_held :: AppState where
  "demo_held = \<lparr>campaigns = \<lparr>elems = [demo_campaign demo_uuid 10], props = Map.empty\<rparr>,
                store = [demo_uuid \<mapsto> demo_campaign demo_uuid 10]\<rparr>"


definition demo_anon :: DatabaseInfo where
  "demo_anon = \<lparr>user = \<lparr>user_id = ''u2'', country = None\<rparr>, guild = None\<rparr>"

definition demo_tagged :: DatabaseCampaign where
  "demo_tagged = (demo_campaign ''t'' 100)
     \<lparr>filters := Some [\<lparr>call_name = ''unknown'', call_data = []\<rparr>,
                       \<lparr>call_name = ''tags'', call_data = [''music'']\<rparr>]\<rparr>"


section \<open>Properties of the selection\<close>

subsection \<open>Numbers and the pass of the loop\<close>

lemma js_add_NaN_right: "js_add x NaN = NaN" by (cases x) simp_all
lemma js_le_NaN_right: "js_le x NaN = False" by (cases x) simp_all

lemma walk_step_end: "end_after (walk_step r tb s e c) = js_add e (raw_percent tb c)"
  by (simp add: walk_step_def Let_def)

lemma walk_step_start: "start_after (walk_step r tb s e c) = js_add s (clamp_percent (raw_percent tb c))"
  by (simp add: walk_step_def Let_def)

lemma walk_step_wins: "wins (walk_step r tb s e c) = (js_gt r s \<and> js_le r (js_add e (raw_percent tb c)))"
  by (simp add: walk_step_def Let_def)

lemmas demo_simps = pick_def eligible_def available_def executeFilters_def total_budget_def random_draw_def
    walk_step_def raw_percent_def clamp_percent_def demo_campaign_def js_sub_def js_gt_def js_ge_def Let_def inf_of_sign_def
    demo_filtered_def demo_info_def demo_bot_def DatabaseCampaignFilters_def countries_execute_def of_boolean_def

subsection \<open>Order of the interval extension and the clamp\<close>

text \<open>
  Claim C1, as the code has it: in the loop of \<open>pick\<close> the statement \<open>end += percent\<close>
  comes before the two clamp statements. For every campaign of the walk, \<open>end\<close> grows by
  the raw rounded share, the campaign wins when \<open>start < random <= end\<close> for that
  \<open>end\<close>, and otherwise \<open>start\<close> grows by the share after the reflection above 20
  and the boost below 5.
\<close>

theorem pick_walk_extends_end_by_raw_percent:
  "walk r tb s e (c # rest) =
     (if js_gt r s \<and> js_le r (js_add e (raw_percent tb c)) then Some c
      else walk r tb (js_add s (clamp_percent (raw_percent tb c))) (js_add e (raw_percent tb c)) rest)
   \<and> end_after (walk_step r tb s e c) = js_add e (raw_percent tb c)
   \<and> start_after (walk_step r tb s e c) = js_add s (clamp_percent (raw_percent tb c))"
  by (simp add: walk_step_end walk_step_start walk_step_wins Let_def)

text \<open>
  At a share of 80 with \<open>start = end = 20\<close>: \<open>end\<close> becomes 100 and the winner is
  found at \<open>random = 80\<close>; \<open>start\<close> would become \<open>20 + 55\<close>.
\<close>

theorem pick_walk_extends_end_by_raw_percent_witness:
  "walk (Fin 80) (Fin 100) (Fin 20) (Fin 20) [demo_campaign ''c'' 80] = Some (demo_campaign ''c'' 80)
   \<and> end_after (walk_step (Fin 80) (Fin 100) (Fin 20) (Fin 20) (demo_campaign ''c'' 80)) = Fin 100
   \<and> start_after (walk_step (Fin 80) (Fin 100) (Fin 20) (Fin 20) (demo_campaign ''c'' 80)) = Fin 75"
  using pick_walk_extends_end_by_raw_percent
          [of "Fin 80" "Fin 100" "Fin 20" "Fin 20" "demo_campaign ''c'' 80" "[]"]
  by (simp add: raw_percent_def clamp_percent_def demo_campaign_def js_sub_def js_gt_def)

text \<open>
  Claim C1 as worded has \<open>end\<close> grow by the share after the clamp. At the same pass
  that would be \<open>20 + 55 = 75\<close>, and the code gives \<open>100\<close>.
\<close>

theorem pick_walk_end_post_clamp_counterexample:
  "end_after (walk_step (Fin 80) (Fin 100) (Fin 20) (Fin 20) (demo_campaign ''c'' 80)) = Fin 100
   \<and> js_add (Fin 20) (clamp_percent (raw_percent (Fin 100) (demo_campaign ''c'' 80))) = Fin 75
   \<and> end_after (walk_step (Fin 80) (Fin 100) (Fin 20) (Fin 20) (demo_campaign ''c'' 80))
       \<noteq> js_add (Fin 20) (clamp_percent (raw_percent (Fin 100) (demo_campaign ''c'' 80)))"
  by (simp add: walk_step_def raw_percent_def clamp_percent_def demo_campaign_def js_sub_def
        js_gt_def Let_def)

subsection \<open>Walks without a winner\<close>

lemma walk_None_iff:
  "walk r tb s e cs = None \<longleftrightarrow> (\<forall>st \<in> set (walk_trace r tb s e cs). \<not> wins st)"
  by (induction cs arbitrary: s e) (simp_all add: Let_def)

lemma raw_percent_zero: "btotal (budget c) = Fin 0 \<Longrightarrow> raw_percent (Fin 0) c = NaN"
  by (simp add: raw_percent_def inf_of_sign_def)

lemma walk_zero_budget:
  "\<forall>c \<in> set cs. btotal (budget c) = Fin 0 \<Longrightarrow> walk r (Fin 0) s e cs = None"
proof (induction cs arbitrary: s e)
  case Nil
  show ?case by simp
next
  case (Cons c cs)
  then have raw: "raw_percent (Fin 0) c = NaN" by (simp add: raw_percent_zero)
  have "\<not> wins (walk_step r (Fin 0) s e c)"
    by (simp add: walk_step_wins raw js_add_NaN_right js_le_NaN_right)
  moreover have "walk r (Fin 0) (start_after (walk_step r (Fin 0) s e c)) (end_after (walk_step r (Fin 0) s e c)) cs = None"
    using Cons by simp
  ultimately show ?case by (simp add: Let_def)
qed

lemma foldl_PInf: "\<forall>c \<in> set cs. js_ge (btotal (budget c)) (Fin 0) \<Longrightarrow>
  foldl (\<lambda>previous campaign. js_add previous (btotal (budget campaign))) PInf cs = PInf"
proof (induction cs)
  case Nil show ?case by simp
next
  case (Cons c cs)
  then have "js_ge (btotal (budget c)) (Fin 0)" by simp
  then have "js_add PInf (btotal (budget c)) = PInf"
    by (cases "btotal (budget c)") (simp_all add: js_ge_def)
  with Cons show ?case by simp
qed

lemma foldl_zero:
  "\<forall>c \<in> set cs. js_ge (btotal (budget c)) (Fin 0) \<Longrightarrow> 0 \<le> a \<Longrightarrow>
   foldl (\<lambda>previous campaign. js_add previous (btotal (budget campaign))) (Fin a) cs = Fin 0 \<Longrightarrow>
   a = 0 \<and> (\<forall>c \<in> set cs. btotal (budget c) = Fin 0)"
proof (induction cs arbitrary: a)
  case Nil then show ?case by simp
next
  case (Cons c cs)
  have ge: "js_ge (btotal (budget c)) (Fin 0)" using Cons.prems(1) by simp
  show ?case
  proof (cases "btotal (budget c)")
    case (Fin t)
    with ge have t0: "0 \<le> t" by (simp add: js_ge_def)
    have "foldl (\<lambda>previous campaign. js_add previous (btotal (budget campaign))) (Fin (a + t)) cs = Fin 0"
      using Cons.prems(3) Fin by simp
    with Cons.IH [of "a + t"] Cons.prems(1,2) t0 have "a + t = 0 \<and> (\<forall>c \<in> set cs. btotal (budget c) = Fin 0)"
      by simp
    with t0 Cons.prems(2) Fin show ?thesis by simp
  next
    case PInf
    with Cons.prems(1,3) foldl_PInf [of cs] show ?thesis by simp
  next
    case NInf with ge show ?thesis by (simp add: js_ge_def)
  next
    case NaN with ge show ?thesis by (simp add: js_ge_def)
  qed
qed

lemma total_budget_zero:
  "\<forall>c \<in> set cs. js_ge (btotal (budget c)) (Fin 0) \<Longrightarrow> total_budget cs = Fin 0 \<Longrightarrow>
   \<forall>c \<in> set cs. btotal (budget c) = Fin 0"
proof -
  assume nonneg: "\<forall>c \<in> set cs. js_ge (btotal (budget c)) (Fin 0)"
  assume "total_budget cs = Fin 0"
  then have "foldl (\<lambda>previous campaign. js_add previous (btotal (budget campaign))) (Fin 0) cs = Fin 0"
    unfolding total_budget_def .
  with nonneg foldl_zero [of cs 0] show ?thesis by blast
qed

text \<open>
  Claim C3, as the code has it: \<open>pick\<close> returns none when no campaign is eligible; when
  the budgets of the eligible campaigns sum to zero and none of them is negative (each
  share is then \<open>0 / 0\<close>, which is NaN, and no comparison with NaN holds); and when no
  pass of the walk over the eligible campaigns wins. \<open>pick\<close> has no failing branch: it
  is a total function to \<open>DatabaseCampaign option\<close>.
\<close>

theorem pick_none_in_degenerate_cases:
  "(eligible b d all = [] \<longrightarrow> pick b all u d = None)
   \<and> ((\<forall>c \<in> set (eligible b d all). js_ge (btotal (budget c)) (Fin 0))
        \<and> total_budget (eligible b d all) = Fin 0 \<longrightarrow> pick b all u d = None)
   \<and> ((\<forall>st \<in> set (walk_trace (random_draw u) (total_budget (eligible b d all)) (Fin 0) (Fin 0)
                      (eligible b d all)). \<not> wins st) \<longrightarrow> pick b all u d = None)"
proof (intro conjI impI)
  assume "eligible b d all = []"
  then show "pick b all u d = None" by (simp add: pick_def)
next
  assume h: "(\<forall>c \<in> set (eligible b d all). js_ge (btotal (budget c)) (Fin 0))
        \<and> total_budget (eligible b d all) = Fin 0"
  then have "\<forall>c \<in> set (eligible b d all). btotal (budget c) = Fin 0"
    using total_budget_zero by blast
  then have "walk (random_draw u) (Fin 0) (Fin 0) (Fin 0) (eligible b d all) = None"
    by (rule walk_zero_budget)
  with h show "pick b all u d = None" by (simp add: pick_def Let_def)
next
  assume "\<forall>st \<in> set (walk_trace (random_draw u) (total_budget (eligible b d all)) (Fin 0) (Fin 0)
                      (eligible b d all)). \<not> wins st"
  then show "pick b all u d = None" by (simp add: pick_def Let_def walk_None_iff)
qed

text \<open>
  The three cases on sample data: an empty list; two campaigns of budget 0; three
  campaigns of budget 1 each, whose shares of 33 reach 99, with \<open>random = 100\<close>.
\<close>

theorem pick_none_in_degenerate_cases_witness:
  "eligible demo_bot demo_info [] = []
   \<and> pick demo_bot [] (1 / 2) demo_info = None
   \<and> list_all (\<lambda>c. js_ge (btotal (budget c)) (Fin 0))
         (eligible demo_bot demo_info [demo_campaign ''a'' 0, demo_campaign ''b'' 0])
   \<and> length (eligible demo_bot demo_info [demo_campaign ''a'' 0, demo_campaign ''b'' 0]) = 2
   \<and> total_budget (eligible demo_bot demo_info [demo_campaign ''a'' 0, demo_campaign ''b'' 0]) = Fin 0
   \<and> pick demo_bot [demo_campaign ''a'' 0, demo_campaign ''b'' 0] (1 / 2) demo_info = None
   \<and> list_all (\<lambda>st. \<not> wins st)
         (walk_trace (random_draw (99 / 100))
            (total_budget (eligible demo_bot demo_info
               [demo_campaign ''a'' 1, demo_campaign ''b'' 1, demo_campaign ''c'' 1]))
            (Fin 0) (Fin 0)
            (eligible demo_bot demo_info
               [demo_campaign ''a'' 1, demo_campaign ''b'' 1, demo_campaign ''c'' 1]))
   \<and> length (eligible demo_bot demo_info
               [demo_campaign ''a'' 1, demo_campaign ''b'' 1, demo_campaign ''c'' 1]) = 3
   \<and> pick demo_bot [demo_campaign ''a'' 1, demo_campaign ''b'' 1, demo_campaign ''c'' 1] (99 / 100)
        demo_info = None"
proof -
  have h1: "eligible demo_bot demo_info [] = []"
    by (simp add: eligible_def)
  have h2: "list_all (\<lambda>c. js_ge (btotal (budget c)) (Fin 0))
         (eligible demo_bot demo_info [demo_campaign ''a'' 0, demo_campaign ''b'' 0])
     \<and> length (eligible demo_bot demo_info [demo_campaign ''a'' 0, demo_campaign ''b'' 0]) = 2
     \<and> total_budget (eligible demo_bot demo_info [demo_campaign ''a'' 0, demo_campaign ''b'' 0]) = Fin 0"
    by (simp add: eligible_def available_def executeFilters_def total_budget_def
          demo_campaign_def js_ge_def)
  have h3: "list_all (\<lambda>st. \<not> wins st)
         (walk_trace (random_draw (99 / 100))
            (total_budget (eligible demo_bot demo_info
               [demo_campaign ''a'' 1, demo_campaign ''b'' 1, demo_campaign ''c'' 1]))
            (Fin 0) (Fin 0)
            (eligible demo_bot demo_info
               [demo_campaign ''a'' 1, demo_campaign ''b'' 1, demo_campaign ''c'' 1]))
     \<and> length (eligible demo_bot demo_info
               [demo_campaign ''a'' 1, demo_campaign ''b'' 1, demo_campaign ''c'' 1]) = 3"
    by (simp add: eligible_def available_def executeFilters_def total_budget_def random_draw_def
          walk_step_def raw_percent_def clamp_percent_def demo_campaign_def js_sub_def js_gt_def
          js_ge_def Let_def)
  note t = pick_none_in_degenerate_cases
  from h1 t [of demo_bot demo_info "[]" "1 / 2"]
  have c1: "pick demo_bot [] (1 / 2) demo_info = None" by blast
  from h2 t [of demo_bot demo_info "[demo_campaign ''a'' 0, demo_campaign ''b'' 0]" "1 / 2"]
  have c2: "pick demo_bot [demo_campaign ''a'' 0, demo_campaign ''b'' 0] (1 / 2) demo_info = None"
    unfolding list_all_iff by blast
  from h3 t [of demo_bot demo_info
               "[demo_campaign ''a'' 1, demo_campaign ''b'' 1, demo_campaign ''c'' 1]" "99 / 100"]
  have c3: "pick demo_bot [demo_campaign ''a'' 1, demo_campaign ''b'' 1, demo_campaign ''c'' 1]
              (99 / 100) demo_info = None"
    unfolding list_all_iff by blast
  from h1 h2 h3 c1 c2 c3 show ?thesis by blast
qed

text \<open>
  Claim C3 as worded has \<open>pick\<close> return none whenever the eligible budgets sum to
  zero. Nothing keeps a budget from being negative: with budgets of 50 and -50 the sum is
  0, the share of the first campaign is \<open>50 / 0\<close>, which is Infinity, \<open>end\<close> becomes
  Infinity, and the first campaign wins at every draw.
\<close>

theorem pick_zero_total_negative_budget_counterexample:
  "length (eligible demo_bot demo_info [demo_campaign ''a'' 50, demo_negative]) = 2
   \<and> total_budget (eligible demo_bot demo_info [demo_campaign ''a'' 50, demo_negative]) = Fin 0
   \<and> raw_percent (Fin 0) (demo_campaign ''a'' 50) = PInf
   \<and> pick demo_bot [demo_campaign ''a'' 50, demo_negative] (1 / 2) demo_info
        = Some (demo_campaign ''a'' 50)
   \<and> pick demo_bot [demo_campaign ''a'' 50, demo_negative] (1 / 2) demo_info \<noteq> None"
  by (simp add: pick_def eligible_def available_def executeFilters_def total_budget_def
        random_draw_def walk_step_def raw_percent_def clamp_percent_def demo_campaign_def
        demo_negative_def js_sub_def js_gt_def js_ge_def Let_def inf_of_sign_def)

subsection \<open>The campaign picked is eligible\<close>

lemma walk_member: "walk r tb s e cs = Some c \<Longrightarrow> c \<in> set cs"
  by (induction cs arbitrary: s e) (auto simp: Let_def split: if_splits)

lemma run_filters_all:
  "run_filters b d fs \<Longrightarrow> call \<in> set fs \<Longrightarrow>
   find (\<lambda>f. filter_name f = call_name call) DatabaseCampaignFilters = Some f \<Longrightarrow>
   truthy (execute f \<lparr>data = call_data call, db = d, bot = b\<rparr>)"
proof (induction fs)
  case Nil then show ?case by simp
next
  case (Cons x fs)
  show ?case
  proof (cases "call = x")
    case True
    with Cons.prems(1,3) show ?thesis by (simp split: if_splits)
  next
    case False
    with Cons.prems have "call \<in> set fs" "run_filters b d fs"
      by (auto split: option.splits if_splits)
    with Cons.IH Cons.prems(3) show ?thesis by simp
  qed
qed

lemma executeFilters_all:
  "executeFilters b c d \<Longrightarrow> filters c = Some fs \<Longrightarrow> call \<in> set fs \<Longrightarrow>
   find (\<lambda>f. filter_name f = call_name call) DatabaseCampaignFilters = Some f \<Longrightarrow>
   truthy (execute f \<lparr>data = call_data call, db = d, bot = b\<rparr>)"
  using run_filters_all [of b d fs call f]
  by (cases "fs = []") (simp_all add: executeFilters_def)

lemma available_at_boundary: "btotal (budget c) = Fin x \<Longrightarrow> used (budget c) = Fin x \<Longrightarrow> available c"
  by (simp add: available_def js_ge_def)

lemma pick_member_eligible: "pick b all u d = Some c \<Longrightarrow> c \<in> set (eligible b d all)"
  by (simp add: pick_def Let_def walk_member)

text \<open>
  Claim C6: a campaign that \<open>pick\<close> returns is one of the list, is active, has
  \<open>total >= used\<close>, and each of its filter calls whose name is that of a registered
  filter gives a truthy result for the viewer; a campaign with \<open>total = used\<close> is
  available; an inactive campaign is never returned.
\<close>

theorem pick_returns_eligible:
  "(pick b all u d = Some c \<longrightarrow>
      c \<in> set all \<and> active c \<and> js_ge (btotal (budget c)) (used (budget c))
      \<and> (\<forall>fs call f. filters c = Some fs \<and> call \<in> set fs
            \<and> find (\<lambda>f. filter_name f = call_name call) DatabaseCampaignFilters = Some f
           \<longrightarrow> truthy (execute f \<lparr>data = call_data call, db = d, bot = b\<rparr>)))
   \<and> (btotal (budget c') = Fin x \<and> used (budget c') = Fin x \<longrightarrow> available c')
   \<and> (\<not> active c \<longrightarrow> pick b all u d \<noteq> Some c)"
proof (intro conjI impI)
  assume p: "pick b all u d = Some c"
  then have "c \<in> set (eligible b d all)" by (rule pick_member_eligible)
  then have m: "c \<in> set all" and a: "active c" and v: "available c" and f: "executeFilters b c d"
    by (simp_all add: eligible_def)
  show "c \<in> set all" by (rule m)
  show "active c" by (rule a)
  show "js_ge (btotal (budget c)) (used (budget c))" using v by (simp add: available_def)
  show "\<forall>fs call f. filters c = Some fs \<and> call \<in> set fs
           \<and> find (\<lambda>f. filter_name f = call_name call) DatabaseCampaignFilters = Some f
          \<longrightarrow> truthy (execute f \<lparr>data = call_data call, db = d, bot = b\<rparr>)"
    using f executeFilters_all by blast
next
  assume "btotal (budget c') = Fin x \<and> used (budget c') = Fin x"
  then show "available c'" by (simp add: available_at_boundary)
next
  assume n: "\<not> active c"
  show "pick b all u d \<noteq> Some c"
  proof
    assume "pick b all u d = Some c"
    then have "c \<in> set (eligible b d all)" by (rule pick_member_eligible)
    with n show False by (simp add: eligible_def)
  qed
qed

text \<open>
  A campaign with budget 100, all of it used, and a \<open>countries\<close> filter that the viewer
  passes is picked; made inactive, it is not.
\<close>

theorem pick_returns_eligible_witness:
  "pick demo_bot [demo_filtered] (1 / 2) demo_info = Some demo_filtered
   \<and> demo_filtered \<in> set [demo_filtered] \<and> active demo_filtered
   \<and> btotal (budget demo_filtered) = Fin 100 \<and> used (budget demo_filtered) = Fin 100
   \<and> js_ge (btotal (budget demo_filtered)) (used (budget demo_filtered))
   \<and> available demo_filtered
   \<and> truthy (countries_execute \<lparr>data = [''DE'', ''FR''], db = demo_info, bot = demo_bot\<rparr>)
   \<and> \<not> active (demo_filtered\<lparr>active := False\<rparr>)
   \<and> pick demo_bot [demo_filtered\<lparr>active := False\<rparr>] (1 / 2) demo_info
        \<noteq> Some (demo_filtered\<lparr>active := False\<rparr>)"
proof -
  have p: "pick demo_bot [demo_filtered] (1 / 2) demo_info = Some demo_filtered"
    by (simp add: demo_simps)
  have b: "btotal (budget demo_filtered) = Fin 100 \<and> used (budget demo_filtered) = Fin 100"
    by (simp add: demo_filtered_def demo_campaign_def)
  have fs: "filters demo_filtered = Some [\<lparr>call_name = ''countries'', call_data = [''DE'', ''FR'']\<rparr>]"
    by (simp add: demo_filtered_def)
  have fi: "find (\<lambda>f. filter_name f = call_name \<lparr>call_name = ''countries'', call_data = [''DE'', ''FR'']\<rparr>)
              DatabaseCampaignFilters = Some \<lparr>filter_name = ''countries'', execute = countries_execute\<rparr>"
    by (simp add: DatabaseCampaignFilters_def)
  have n: "\<not> active (demo_filtered\<lparr>active := False\<rparr>)" by simp
  note t1 = pick_returns_eligible [of demo_bot "[demo_filtered]" "1 / 2" demo_info demo_filtered
              demo_filtered 100]
  note t2 = pick_returns_eligible [of demo_bot "[demo_filtered\<lparr>active := False\<rparr>]" "1 / 2" demo_info
              "demo_filtered\<lparr>active := False\<rparr>" demo_filtered 100]
  from t1 p b have r1: "demo_filtered \<in> set [demo_filtered] \<and> active demo_filtered
     \<and> js_ge (btotal (budget demo_filtered)) (used (budget demo_filtered)) \<and> available demo_filtered"
    by blast
  from t1 p have "\<forall>fs call f. filters demo_filtered = Some fs \<and> call \<in> set fs
            \<and> find (\<lambda>f. filter_name f = call_name call) DatabaseCampaignFilters = Some f
           \<longrightarrow> truthy (execute f \<lparr>data = call_data call, db = demo_info, bot = demo_bot\<rparr>)"
    by blast
  with fs fi have r2: "truthy (countries_execute \<lparr>data = [''DE'', ''FR''], db = demo_info, bot = demo_bot\<rparr>)"
    by fastforce
  from t2 n have r3: "pick demo_bot [demo_filtered\<lparr>active := False\<rparr>] (1 / 2) demo_info
        \<noteq> Some (demo_filtered\<lparr>active := False\<rparr>)"
    by blast
  from p b r1 r2 n r3 show ?thesis by blast
qed


section \<open>Properties of the updates\<close>

subsection \<open>What an update returns and stores\<close>

lemma apply_changes_stats:
  "apply_changes c (no_changes\<lparr>ch_stats := Some x\<rparr>) = c\<lparr>stats := x\<rparr>"
  by (simp add: apply_changes_def no_changes_def)

lemma apply_changes_budget:
  "apply_changes c (no_changes\<lparr>ch_budget := Some x\<rparr>) = c\<lparr>budget := x\<rparr>"
  by (simp add: apply_changes_def no_changes_def)

lemma app_update_result: "snd (app_update s c ch) = apply_changes c ch"
  by (simp add: app_update_def queue_update_def Let_def)

lemma app_update_store: "store (fst (app_update s c ch)) = (store s)(cid c \<mapsto> apply_changes c ch)"
  by (simp add: app_update_def queue_update_def Let_def)

lemma app_update_campaigns:
  "campaigns (fst (app_update s c ch)) =
     array_set (campaigns s) (findIndex (\<lambda>x. cid x = cid c) (elems (campaigns s))) (apply_changes c ch)"
  by (simp add: app_update_def queue_update_def Let_def)

lemma update_result: "snd (update s c ch) = apply_changes c ch"
  by (simp add: update_def app_update_result)

lemma update_store: "store (fst (update s c ch)) = (store s)(cid c \<mapsto> apply_changes c ch)"
  by (simp add: update_def app_update_store)

subsection \<open>The budget debit\<close>

text \<open>
  Claim C7: \<open>incrementUsage\<close> returns the campaign and the state as they are when the
  type of the budget differs from the type of the event. When they are equal, the
  campaign returned and stored is the old one with \<open>used\<close> replaced by
  \<open>used + cost / 1000\<close>, as JavaScript computes it; \<open>total\<close> takes no part in the new
  value, so \<open>used\<close> is not clamped to it.
\<close>

theorem incrementUsage_debit:
  "(btype (budget c) \<noteq> t \<longrightarrow> incrementUsage s c t = (s, c))
   \<and> (btype (budget c) = t \<longrightarrow>
        snd (incrementUsage s c t) =
          c\<lparr>budget := (budget c)\<lparr>used := js_add (used (budget c)) (js_div (cost (budget c)) (Fin 1000))\<rparr>\<rparr>
        \<and> used (budget (snd (incrementUsage s c t))) =
            js_add (used (budget c)) (js_div (cost (budget c)) (Fin 1000))
        \<and> btotal (budget (snd (incrementUsage s c t))) = btotal (budget c)
        \<and> store (fst (incrementUsage s c t)) (cid c) = Some (snd (incrementUsage s c t)))"
  by (simp add: incrementUsage_def Let_def update_result update_store apply_changes_budget)

text \<open>
  A click budget of 100, all used, at a cost of 500: a view leaves it alone, a click
  takes \<open>used\<close> to 100.5, past the total.
\<close>

theorem incrementUsage_debit_witness:
  "btype (budget demo_filtered) \<noteq> BudgetView
   \<and> incrementUsage demo_state demo_filtered BudgetView = (demo_state, demo_filtered)
   \<and> btype (budget demo_filtered) = BudgetClick
   \<and> used (budget demo_filtered) = Fin 100 \<and> cost (budget demo_filtered) = Fin 500
   \<and> btotal (budget demo_filtered) = Fin 100
   \<and> used (budget (snd (incrementUsage demo_state demo_filtered BudgetClick))) = Fin (201 / 2)
   \<and> btotal (budget (snd (incrementUsage demo_state demo_filtered BudgetClick))) = Fin 100
   \<and> js_gt (used (budget (snd (incrementUsage demo_state demo_filtered BudgetClick))))
        (btotal (budget (snd (incrementUsage demo_state demo_filtered BudgetClick))))
   \<and> store (fst (incrementUsage demo_state demo_filtered BudgetClick)) ''f''
        = Some (snd (incrementUsage demo_state demo_filtered BudgetClick))"
proof -
  have h: "btype (budget demo_filtered) \<noteq> BudgetView \<and> btype (budget demo_filtered) = BudgetClick
     \<and> used (budget demo_filtered) = Fin 100 \<and> cost (budget demo_filtered) = Fin 500
     \<and> btotal (budget demo_filtered) = Fin 100"
    by (simp add: demo_filtered_def demo_campaign_def)
  have i: "cid demo_filtered = ''f''"
    by (simp add: demo_filtered_def demo_campaign_def)
  from h incrementUsage_debit [of demo_filtered BudgetView demo_state]
  have a: "incrementUsage demo_state demo_filtered BudgetView = (demo_state, demo_filtered)"
    by blast
  from h incrementUsage_debit [of demo_filtered BudgetClick demo_state]
  have b: "used (budget (snd (incrementUsage demo_state demo_filtered BudgetClick)))
         = js_add (used (budget demo_filtered)) (js_div (cost (budget demo_filtered)) (Fin 1000))
       \<and> btotal (budget (snd (incrementUsage demo_state demo_filtered BudgetClick)))
         = btotal (budget demo_filtered)
       \<and> store (fst (incrementUsage demo_state demo_filtered BudgetClick)) (cid demo_filtered)
         = Some (snd (incrementUsage demo_state demo_filtered BudgetClick))"
    by blast
  with h have u: "used (budget (snd (incrementUsage demo_state demo_filtered BudgetClick))) = Fin (201 / 2)"
    by simp
  from b h have t: "btotal (budget (snd (incrementUsage demo_state demo_filtered BudgetClick))) = Fin 100"
    by simp
  from u t have c: "js_gt (used (budget (snd (incrementUsage demo_state demo_filtered BudgetClick))))
        (btotal (budget (snd (incrementUsage demo_state demo_filtered BudgetClick))))"
    by (simp add: js_gt_def)
  from b i have st: "store (fst (incrementUsage demo_state demo_filtered BudgetClick)) ''f''
        = Some (snd (incrementUsage demo_state demo_filtered BudgetClick))"
    by simp
  from h a u t c st show ?thesis by (intro conjI) blast+
qed

subsection \<open>The statistics counters\<close>

lemma stat_get_put: "stat_get (stat_put st k v) k = v"
  by (cases k) (simp_all add: stat_get_def stat_put_def)

lemma updateStatistics_result:
  "stat_get (stats (snd (updateStatistics s c k up))) k =
     \<lparr>stat_total = (case u_total up of None \<Rightarrow> stat_total (stat_get (stats c) k) | Some t \<Rightarrow> t),
      geo = geo (stat_get (stats c) k) ++ (case u_geo up of None \<Rightarrow> Map.empty | Some g \<Rightarrow> g)\<rparr>"
  by (simp add: updateStatistics_def Let_def update_result apply_changes_stats stat_get_put)


lemma incrementStatistic_counter:
  "stat_get (stats (snd (incrementStatistic s c k d))) k =
     \<lparr>stat_total = js_add (stat_total (stat_get (stats c) k)) (Fin 1),
      geo = geo (stat_get (stats c) k) ++
        (case country (user d) of
           None \<Rightarrow> Map.empty
         | Some co \<Rightarrow> fresh_geo co (next_count (geo (stat_get (stats c) k)) co))\<rparr>"
  by (simp add: incrementStatistic_def Let_def updateStatistics_result)







text \<open>
  Claim C9: \<open>clearStatistics\<close> is one update that sets the totals of clicks and views
  to 0 and both \<open>geo\<close> maps to the empty map; id, name, creation time, active flag,
  budget, logs, members, filters, link and settings of the campaign returned and stored
  are those of the campaign given, so no log entry is added.
\<close>

theorem clearStatistics_frame:
  "snd (clearStatistics s c) = c\<lparr>stats := zero_stats\<rparr>
   \<and> stat_total (clicks (stats (snd (clearStatistics s c)))) = Fin 0
   \<and> geo (clicks (stats (snd (clearStatistics s c)))) = Map.empty
   \<and> stat_total (views (stats (snd (clearStatistics s c)))) = Fin 0
   \<and> geo (views (stats (snd (clearStatistics s c)))) = Map.empty
   \<and> cid (snd (clearStatistics s c)) = cid c
   \<and> name (snd (clearStatistics s c)) = name c
   \<and> created (snd (clearStatistics s c)) = created c
   \<and> active (snd (clearStatistics s c)) = active c
   \<and> budget (snd (clearStatistics s c)) = budget c
   \<and> logs (snd (clearStatistics s c)) = logs c
   \<and> members (snd (clearStatistics s c)) = members c
   \<and> filters (snd (clearStatistics s c)) = filters c
   \<and> link (snd (clearStatistics s c)) = link c
   \<and> settings (snd (clearStatistics s c)) = settings c
   \<and> store (fst (clearStatistics s c)) (cid c) = Some (snd (clearStatistics s c))"
  by (simp add: clearStatistics_def update_result update_store apply_changes_stats zero_stats_def)

text \<open>A campaign with 7 views and one log entry, cleared.\<close>

theorem clearStatistics_frame_witness:
  "stat_total (views (stats demo_viewed)) = Fin 7
   \<and> length (logs demo_viewed) = 1
   \<and> snd (clearStatistics demo_state demo_viewed) = demo_viewed\<lparr>stats := zero_stats\<rparr>
   \<and> stat_total (views (stats (snd (clearStatistics demo_state demo_viewed)))) = Fin 0
   \<and> stat_total (clicks (stats (snd (clearStatistics demo_state demo_viewed)))) = Fin 0
   \<and> logs (snd (clearStatistics demo_state demo_viewed)) = logs demo_viewed"
proof -
  have o: "stat_total (views (stats demo_viewed)) = Fin 7 \<and> length (logs demo_viewed) = 1"
    by (simp add: demo_viewed_def)
  from clearStatistics_frame [of demo_state demo_viewed]
  have "snd (clearStatistics demo_state demo_viewed) = demo_viewed\<lparr>stats := zero_stats\<rparr>
     \<and> stat_total (views (stats (snd (clearStatistics demo_state demo_viewed)))) = Fin 0
     \<and> stat_total (clicks (stats (snd (clearStatistics demo_state demo_viewed)))) = Fin 0
     \<and> logs (snd (clearStatistics demo_state demo_viewed)) = logs demo_viewed"
    by blast
  with o show ?thesis by blast
qed

subsection \<open>An update for an id that the list does not hold\<close>

lemma findIndex_none: "(\<forall>x \<in> set xs. \<not> p x) \<Longrightarrow> findIndex p xs = - 1"
  by (induction xs) (simp_all add: Let_def)

lemma findIndex_range: "- 1 \<le> findIndex p xs \<and> findIndex p xs < int (length xs)"
  by (induction xs) (auto simp: Let_def)

text \<open>
  Claim C10: when no campaign of the in-memory list has the id of the campaign updated,
  \<open>findIndex\<close> gives \<open>-1\<close>, the assignment \<open>campaigns[-1] = updated\<close> leaves the
  elements of the list as they are (it sets the property \<open>-1\<close> of the array object),
  and \<open>update\<close> still returns the campaign that \<open>db.queue.update\<close> merged and stored.
\<close>

theorem app_update_absent_id:
  "(\<forall>x \<in> set (elems (campaigns s)). cid x \<noteq> cid c) \<longrightarrow>
     findIndex (\<lambda>x. cid x = cid c) (elems (campaigns s)) = - 1
     \<and> elems (campaigns (fst (app_update s c ch))) = elems (campaigns s)
     \<and> props (campaigns (fst (app_update s c ch))) = (props (campaigns s))(- 1 \<mapsto> apply_changes c ch)
     \<and> snd (app_update s c ch) = apply_changes c ch
     \<and> store (fst (app_update s c ch)) (cid c) = Some (apply_changes c ch)"
proof
  assume a: "\<forall>x \<in> set (elems (campaigns s)). cid x \<noteq> cid c"
  then have i: "findIndex (\<lambda>x. cid x = cid c) (elems (campaigns s)) = - 1"
    by (simp add: findIndex_none)
  then show "findIndex (\<lambda>x. cid x = cid c) (elems (campaigns s)) = - 1
     \<and> elems (campaigns (fst (app_update s c ch))) = elems (campaigns s)
     \<and> props (campaigns (fst (app_update s c ch))) = (props (campaigns s))(- 1 \<mapsto> apply_changes c ch)
     \<and> snd (app_update s c ch) = apply_changes c ch
     \<and> store (fst (app_update s c ch)) (cid c) = Some (apply_changes c ch)"
    by (simp add: app_update_campaigns app_update_result app_update_store array_set_def)
qed

text \<open>The list holds the campaign \<open>f\<close> only; the campaign \<open>v\<close> is updated.\<close>

theorem app_update_absent_id_witness:
  "list_all (\<lambda>x. cid x \<noteq> cid demo_viewed) (elems (campaigns demo_state))
   \<and> elems (campaigns demo_state) = [demo_filtered]
   \<and> findIndex (\<lambda>x. cid x = cid demo_viewed) (elems (campaigns demo_state)) = - 1
   \<and> elems (campaigns (fst (app_update demo_state demo_viewed (no_changes\<lparr>ch_active := Some False\<rparr>))))
        = [demo_filtered]
   \<and> snd (app_update demo_state demo_viewed (no_changes\<lparr>ch_active := Some False\<rparr>))
        = demo_viewed\<lparr>active := False\<rparr>
   \<and> store (fst (app_update demo_state demo_viewed (no_changes\<lparr>ch_active := Some False\<rparr>))) ''v''
        = Some (demo_viewed\<lparr>active := False\<rparr>)"
proof -
  have e: "elems (campaigns demo_state) = [demo_filtered]"
    by (simp add: demo_state_def)
  have i: "cid demo_viewed = ''v'' \<and> cid demo_filtered = ''f''"
    by (simp add: demo_viewed_def demo_filtered_def demo_campaign_def)
  from e i have h: "list_all (\<lambda>x. cid x \<noteq> cid demo_viewed) (elems (campaigns demo_state))"
    by simp
  have m: "apply_changes demo_viewed (no_changes\<lparr>ch_active := Some False\<rparr>) = demo_viewed\<lparr>active := False\<rparr>"
    by (simp add: apply_changes_def no_changes_def)
  from h have "\<forall>x \<in> set (elems (campaigns demo_state)). cid x \<noteq> cid demo_viewed"
    by (simp add: list_all_iff)
  with app_update_absent_id [of demo_state demo_viewed "no_changes\<lparr>ch_active := Some False\<rparr>"]
  have "findIndex (\<lambda>x. cid x = cid demo_viewed) (elems (campaigns demo_state)) = - 1
     \<and> elems (campaigns (fst (app_update demo_state demo_viewed (no_changes\<lparr>ch_active := Some False\<rparr>))))
          = elems (campaigns demo_state)
     \<and> snd (app_update demo_state demo_viewed (no_changes\<lparr>ch_active := Some False\<rparr>))
          = apply_changes demo_viewed (no_changes\<lparr>ch_active := Some False\<rparr>)
     \<and> store (fst (app_update demo_state demo_viewed (no_changes\<lparr>ch_active := Some False\<rparr>)))
          (cid demo_viewed) = Some (apply_changes demo_viewed (no_changes\<lparr>ch_active := Some False\<rparr>))"
    by blast
  with e i m h show ?thesis by simp
qed

subsection \<open>The click on the link button\<close>

lemma handleInteraction_link_found:
  "get s i = Some c \<Longrightarrow>
   handleInteraction_link s (a # i # rest) =
     (fst (incrementUsage s c BudgetClick), Some (snd (incrementUsage s c BudgetClick)))"
  by (simp add: handleInteraction_link_def split_beta)

lemma incrementUsage_stats: "stats (snd (incrementUsage s c t)) = stats c"
  by (simp add: incrementUsage_def Let_def update_result apply_changes_budget)

lemma incrementUsage_budget:
  "budget (snd (incrementUsage s c t)) =
     (if btype (budget c) = t
      then (budget c)\<lparr>used := js_add (used (budget c)) (js_div (cost (budget c)) (Fin 1000))\<rparr>
      else budget c)"
  by (simp add: incrementUsage_def Let_def update_result apply_changes_budget)

text \<open>
  Claim C2, as the code has it: for a campaign id that \<open>get\<close> finds, the \<open>link\<close>
  branch of \<open>handleInteraction\<close> goes on with the campaign that
  \<open>incrementUsage(campaign, "click")\<close> returned: its budget is debited when the budget
  type is \<open>click\<close>, and its statistics are those of the campaign found. The branch
  does not call \<open>incrementStatistic\<close>.
\<close>

theorem click_through_debits_budget_only:
  "get s i = Some c \<longrightarrow>
     (\<exists>c'. snd (handleInteraction_link s (a # i # rest)) = Some c'
        \<and> budget c' =
            (if btype (budget c) = BudgetClick
             then (budget c)\<lparr>used := js_add (used (budget c)) (js_div (cost (budget c)) (Fin 1000))\<rparr>
             else budget c)
        \<and> stats c' = stats c)"
  by (simp add: handleInteraction_link_found incrementUsage_stats incrementUsage_budget)

text \<open>A click on the link of a campaign with a click budget and no clicks counted so far.\<close>

theorem click_through_debits_budget_only_witness:
  "get demo_state ''f'' = Some demo_filtered
   \<and> btype (budget demo_filtered) = BudgetClick
   \<and> stat_total (clicks (stats demo_filtered)) = Fin 0
   \<and> (\<exists>c'. snd (handleInteraction_link demo_state [''link'', ''f'']) = Some c'
         \<and> used (budget c') = Fin (201 / 2)
         \<and> stat_total (clicks (stats c')) = Fin 0)"
proof -
  have g: "get demo_state ''f'' = Some demo_filtered"
    by (simp add: get_def fetchFromCacheOrDatabase_def demo_state_def)
  have b: "btype (budget demo_filtered) = BudgetClick \<and> used (budget demo_filtered) = Fin 100
     \<and> cost (budget demo_filtered) = Fin 500 \<and> stat_total (clicks (stats demo_filtered)) = Fin 0"
    by (simp add: demo_filtered_def demo_campaign_def zero_stats_def)
  from g click_through_debits_budget_only [of demo_state "''f''" demo_filtered "''link''" "[]"]
  obtain c' where c: "snd (handleInteraction_link demo_state [''link'', ''f'']) = Some c'"
    and u: "budget c' =
            (if btype (budget demo_filtered) = BudgetClick
             then (budget demo_filtered)\<lparr>used := js_add (used (budget demo_filtered))
                    (js_div (cost (budget demo_filtered)) (Fin 1000))\<rparr>
             else budget demo_filtered)"
    and st: "stats c' = stats demo_filtered"
    by blast
  from u b have "used (budget c') = Fin (201 / 2)" by simp
  moreover from st b have "stat_total (clicks (stats c')) = Fin 0" by simp
  ultimately show ?thesis using g b c by blast
qed

text \<open>
  Claim C2 as worded has the click counted as well: the total of clicks would be one
  more than before, as \<open>incrementStatistic\<close> for clicks would make it. It stays 0.
\<close>

theorem click_through_increments_clicks_counterexample:
  "get demo_state ''f'' = Some demo_filtered
   \<and> snd (handleInteraction_link demo_state [''link'', ''f''])
       = Some (demo_filtered\<lparr>budget := (budget demo_filtered)\<lparr>used := Fin (201 / 2)\<rparr>\<rparr>)
   \<and> stat_total (clicks (stats (the (snd (handleInteraction_link demo_state [''link'', ''f''])))))
       \<noteq> js_add (stat_total (clicks (stats demo_filtered))) (Fin 1)
   \<and> stats (the (snd (handleInteraction_link demo_state [''link'', ''f''])))
       \<noteq> stats (snd (incrementStatistic demo_state demo_filtered KeyClicks demo_info))"
proof -
  have g: "get demo_state ''f'' = Some demo_filtered"
    by (simp add: get_def fetchFromCacheOrDatabase_def demo_state_def)
  have r: "snd (handleInteraction_link demo_state [''link'', ''f''])
       = Some (demo_filtered\<lparr>budget := (budget demo_filtered)\<lparr>used := Fin (201 / 2)\<rparr>\<rparr>)"
    by (simp add: handleInteraction_link_found [OF g] incrementUsage_def Let_def update_result
          apply_changes_budget) (simp add: demo_filtered_def demo_campaign_def)
  have n: "stat_total (clicks (stats demo_filtered)) = Fin 0"
    by (simp add: demo_filtered_def demo_campaign_def zero_stats_def)
  have k: "stat_total (clicks (stats (snd (incrementStatistic demo_state demo_filtered KeyClicks demo_info)))) = Fin 1"
    using incrementStatistic_counter [of demo_state demo_filtered KeyClicks demo_info] n
    by (simp add: stat_get_def)
  from r n have a: "stat_total (clicks (stats (the (snd (handleInteraction_link demo_state [''link'', ''f''])))))
       \<noteq> js_add (stat_total (clicks (stats demo_filtered))) (Fin 1)"
    by simp
  from r n k have b: "stats (the (snd (handleInteraction_link demo_state [''link'', ''f''])))
       \<noteq> stats (snd (incrementStatistic demo_state demo_filtered KeyClicks demo_info))"
    by auto
  from g r a b show ?thesis by blast
qed

subsection \<open>Creation\<close>

text \<open>
  Claim C4, as the code has it: \<open>create\<close> returns, stores and appends to the list a
  campaign with \<open>active = false\<close>, both totals 0 and both \<open>geo\<close> maps empty; logs,
  name, budget, members, link and settings are those of the options. When the options
  carry none of the keys \<open>id\<close>, \<open>created\<close> and \<open>filters\<close>, the id is the value that
  \<open>randomUUID()\<close> gave, the creation time is the one read at creation and \<open>filters\<close> is
  \<open>null\<close>. The id is then the id of no campaign held before, and of one campaign of the
  list after, when \<open>randomUUID()\<close> gave the id of no campaign held.
\<close>

theorem create_defaults:
  "active (snd (create s uuid now options)) = False
   \<and> stat_total (clicks (stats (snd (create s uuid now options)))) = Fin 0
   \<and> geo (clicks (stats (snd (create s uuid now options)))) = Map.empty
   \<and> stat_total (views (stats (snd (create s uuid now options)))) = Fin 0
   \<and> geo (views (stats (snd (create s uuid now options)))) = Map.empty
   \<and> logs (snd (create s uuid now options)) = o_logs options
   \<and> name (snd (create s uuid now options)) = o_name options
   \<and> budget (snd (create s uuid now options)) = o_budget options
   \<and> members (snd (create s uuid now options)) = o_members options
   \<and> link (snd (create s uuid now options)) = o_link options
   \<and> settings (snd (create s uuid now options)) = o_settings options
   \<and> elems (campaigns (fst (create s uuid now options)))
       = elems (campaigns s) @ [snd (create s uuid now options)]
   \<and> store (fst (create s uuid now options))
       = (store s)(cid (snd (create s uuid now options)) \<mapsto> snd (create s uuid now options))
   \<and> (o_id options = None \<and> o_created options = None \<and> o_filters options = None \<longrightarrow>
        cid (snd (create s uuid now options)) = uuid
        \<and> created (snd (create s uuid now options)) = now
        \<and> filters (snd (create s uuid now options)) = None)
   \<and> (o_id options = None \<and> (\<forall>x \<in> set (elems (campaigns s)). cid x \<noteq> uuid) \<longrightarrow>
        (\<forall>x \<in> set (elems (campaigns s)). cid x \<noteq> cid (snd (create s uuid now options)))
        \<and> length (filter (\<lambda>x. cid x = cid (snd (create s uuid now options)))
                   (elems (campaigns (fst (create s uuid now options))))) = 1)"
proof (intro conjI impI)
  assume a: "o_id options = None \<and> (\<forall>x \<in> set (elems (campaigns s)). cid x \<noteq> uuid)"
  then have i: "cid (snd (create s uuid now options)) = uuid"
    by (simp add: create_def createFromCacheOrDatabase_def Let_def)
  from a show "\<forall>x \<in> set (elems (campaigns s)). cid x \<noteq> cid (snd (create s uuid now options))"
    unfolding i by blast
  from a have "filter (\<lambda>x. cid x = uuid) (elems (campaigns s)) = []"
    by (simp add: filter_empty_conv)
  moreover have "elems (campaigns (fst (create s uuid now options)))
       = elems (campaigns s) @ [snd (create s uuid now options)]"
    by (simp add: create_def createFromCacheOrDatabase_def array_push_def Let_def)
  ultimately show "length (filter (\<lambda>x. cid x = cid (snd (create s uuid now options)))
                   (elems (campaigns (fst (create s uuid now options))))) = 1"
    unfolding i using i by simp
qed (simp_all add: create_def createFromCacheOrDatabase_def array_push_def zero_stats_def Let_def)

text \<open>
  Creation from options that carry one log entry and none of the three keys, in a state
  whose list holds the campaign \<open>f\<close>.
\<close>

theorem create_defaults_witness:
  "o_id demo_options = None \<and> o_created demo_options = None \<and> o_filters demo_options = None
   \<and> list_all (\<lambda>x. cid x \<noteq> demo_uuid) (elems (campaigns demo_state))
   \<and> length (elems (campaigns demo_state)) = 1
   \<and> cid (snd (create demo_state demo_uuid demo_now demo_options)) = demo_uuid
   \<and> created (snd (create demo_state demo_uuid demo_now demo_options)) = demo_now
   \<and> filters (snd (create demo_state demo_uuid demo_now demo_options)) = None
   \<and> active (snd (create demo_state demo_uuid demo_now demo_options)) = False
   \<and> stat_total (views (stats (snd (create demo_state demo_uuid demo_now demo_options)))) = Fin 0
   \<and> logs (snd (create demo_state demo_uuid demo_now demo_options)) = o_logs demo_options
   \<and> list_all (\<lambda>x. cid x \<noteq> cid (snd (create demo_state demo_uuid demo_now demo_options)))
        (elems (campaigns demo_state))
   \<and> length (filter (\<lambda>x. cid x = cid (snd (create demo_state demo_uuid demo_now demo_options)))
        (elems (campaigns (fst (create demo_state demo_uuid demo_now demo_options))))) = 1"
proof -
  have k: "o_id demo_options = None \<and> o_created demo_options = None \<and> o_filters demo_options = None"
    by (simp add: demo_options_def)
  have f: "list_all (\<lambda>x. cid x \<noteq> demo_uuid) (elems (campaigns demo_state))
     \<and> length (elems (campaigns demo_state)) = 1"
    by (simp add: demo_state_def demo_filtered_def demo_campaign_def demo_uuid_def)
  then have f': "\<forall>x \<in> set (elems (campaigns demo_state)). cid x \<noteq> demo_uuid"
    by (simp add: list_all_iff)
  note t = create_defaults [of demo_state demo_uuid demo_now demo_options]
  from t k have r1: "cid (snd (create demo_state demo_uuid demo_now demo_options)) = demo_uuid
     \<and> created (snd (create demo_state demo_uuid demo_now demo_options)) = demo_now
     \<and> filters (snd (create demo_state demo_uuid demo_now demo_options)) = None"
    by blast
  from t have r2: "active (snd (create demo_state demo_uuid demo_now demo_options)) = False
     \<and> stat_total (views (stats (snd (create demo_state demo_uuid demo_now demo_options)))) = Fin 0
     \<and> logs (snd (create demo_state demo_uuid demo_now demo_options)) = o_logs demo_options"
    by blast
  from t k f' have r3: "(\<forall>x \<in> set (elems (campaigns demo_state)).
         cid x \<noteq> cid (snd (create demo_state demo_uuid demo_now demo_options)))
     \<and> length (filter (\<lambda>x. cid x = cid (snd (create demo_state demo_uuid demo_now demo_options)))
        (elems (campaigns (fst (create demo_state demo_uuid demo_now demo_options))))) = 1"
    by blast
  then have r4: "list_all (\<lambda>x. cid x \<noteq> cid (snd (create demo_state demo_uuid demo_now demo_options)))
        (elems (campaigns demo_state))"
    by (simp add: list_all_iff)
  from k f r1 r2 r3 r4 show ?thesis by (intro conjI) blast+
qed

text \<open>
  Claim C4 as worded has, for every draft, empty logs and a fresh, unique id. The logs
  are those of the draft, here one entry. Options made from the campaign \<open>f\<close> carry its
  id, which replaces the generated one: the list then holds two campaigns \<open>f\<close>. And
  \<open>create\<close> compares the generated id with nothing: were \<open>randomUUID()\<close> to give an id
  in use, the list would hold it twice.
\<close>

theorem create_logs_and_id_counterexample:
  "length (o_logs demo_options) = 1
   \<and> logs (snd (create demo_state demo_uuid demo_now demo_options)) \<noteq> []
   \<and> o_id demo_copy = Some ''f''
   \<and> cid (snd (create demo_state demo_uuid demo_now demo_copy)) = ''f''
   \<and> cid (snd (create demo_state demo_uuid demo_now demo_copy)) \<noteq> demo_uuid
   \<and> map cid (elems (campaigns demo_state)) = [''f'']
   \<and> map cid (elems (campaigns (fst (create demo_state demo_uuid demo_now demo_copy)))) = [''f'', ''f'']
   \<and> map cid (elems (campaigns demo_held)) = [demo_uuid]
   \<and> map cid (elems (campaigns (fst (create demo_held demo_uuid demo_now demo_options))))
       = [demo_uuid, demo_uuid]"
  by (simp add: create_def createFromCacheOrDatabase_def array_push_def Let_def demo_options_def
        demo_copy_def demo_state_def demo_held_def demo_filtered_def demo_campaign_def demo_uuid_def)

subsection \<open>The tags filter\<close>

lemma find_tags_filter:
  "call_name call = ''tags'' \<Longrightarrow>
   find (\<lambda>f. filter_name f = call_name call) DatabaseCampaignFilters =
     Some \<lparr>filter_name = ''tags'', execute = tags_execute\<rparr>"
  by (simp add: DatabaseCampaignFilters_def)

lemma run_filters_falsy_call:
  "call \<in> set fs \<Longrightarrow>
   find (\<lambda>f. filter_name f = call_name call) DatabaseCampaignFilters = Some f \<Longrightarrow>
   \<not> truthy (execute f \<lparr>data = call_data call, db = d, bot = b\<rparr>) \<Longrightarrow>
   \<not> run_filters b d fs"
  using run_filters_all [of b d fs call f] by blast

lemma tags_execute_disjoint:
  "guild d = Some g \<Longrightarrow> tags g = Some ts \<Longrightarrow> set ts \<inter> set ds = {} \<Longrightarrow>
   tags_execute \<lparr>data = ds, db = d, bot = b\<rparr> = JUndefined"
  by (auto simp: tags_execute_def list_ex_iff)

text \<open>
  Claim C5: the \<open>tags\<close> filter gives \<open>true\<close> exactly when the viewer has a guild, the
  guild has tags and one of them is in the list of the filter call. It gives \<open>false\<close>
  when the guild is missing and when the tags of the guild are missing. When the guild
  has tags and none is in the list, the callback returns \<open>undefined\<close>, which
  \<open>executeFilters\<close> reads as a failed filter: a campaign with such a \<open>tags\<close> call among
  its filters does not match.
\<close>

theorem tags_filter_semantics:
  "(tags_execute ctx = JTrue \<longleftrightarrow>
      (\<exists>g ts. guild (db ctx) = Some g \<and> tags g = Some ts \<and> (\<exists>t \<in> set ts. t \<in> set (data ctx))))
   \<and> (guild (db ctx) = None \<longrightarrow> tags_execute ctx = JFalse)
   \<and> (guild (db ctx) = Some g \<and> tags g = None \<longrightarrow> tags_execute ctx = JFalse)
   \<and> (guild d = Some g' \<and> tags g' = Some ts' \<and> set ts' \<inter> set ds = {}
        \<and> filters c = Some fs \<and> call \<in> set fs \<and> call_name call = ''tags'' \<and> call_data call = ds
       \<longrightarrow> tags_execute \<lparr>data = ds, db = d, bot = b\<rparr> = JUndefined \<and> \<not> executeFilters b c d)"
proof (intro conjI impI)
  show "tags_execute ctx = JTrue \<longleftrightarrow>
      (\<exists>g ts. guild (db ctx) = Some g \<and> tags g = Some ts \<and> (\<exists>t \<in> set ts. t \<in> set (data ctx)))"
    by (auto simp: tags_execute_def list_ex_iff split: option.splits)
next
  assume "guild (db ctx) = None"
  then show "tags_execute ctx = JFalse" by (simp add: tags_execute_def)
next
  assume "guild (db ctx) = Some g \<and> tags g = None"
  then show "tags_execute ctx = JFalse" by (simp add: tags_execute_def)
next
  assume a: "guild d = Some g' \<and> tags g' = Some ts' \<and> set ts' \<inter> set ds = {}
        \<and> filters c = Some fs \<and> call \<in> set fs \<and> call_name call = ''tags'' \<and> call_data call = ds"
  then show u: "tags_execute \<lparr>data = ds, db = d, bot = b\<rparr> = JUndefined"
    using tags_execute_disjoint by blast
  from a have "call_name call = ''tags''" by blast
  then have f: "find (\<lambda>f. filter_name f = call_name call) DatabaseCampaignFilters =
     Some \<lparr>filter_name = ''tags'', execute = tags_execute\<rparr>"
    by (rule find_tags_filter)
  from a u have "\<not> truthy (execute \<lparr>filter_name = ''tags'', execute = tags_execute\<rparr>
                    \<lparr>data = call_data call, db = d, bot = b\<rparr>)"
    by simp
  with a f have "\<not> run_filters b d fs" using run_filters_falsy_call by blast
  moreover from a have "fs \<noteq> []" by auto
  ultimately show "\<not> executeFilters b c d" using a by (simp add: executeFilters_def)
qed

text \<open>
  A viewer in a guild tagged \<open>gaming\<close> and \<open>art\<close>, a viewer without a guild, a viewer in
  a guild without tags, and a campaign for the tag \<open>music\<close>.
\<close>

theorem tags_filter_semantics_witness:
  "guild demo_info = Some \<lparr>tags = Some [''gaming'', ''art'']\<rparr>
   \<and> tags_execute \<lparr>data = [''art'', ''news''], db = demo_info, bot = demo_bot\<rparr> = JTrue
   \<and> guild demo_anon = None
   \<and> tags_execute \<lparr>data = [''art'', ''news''], db = demo_anon, bot = demo_bot\<rparr> = JFalse
   \<and> guild (demo_anon\<lparr>guild := Some \<lparr>tags = None\<rparr>\<rparr>) = Some \<lparr>tags = None\<rparr>
   \<and> tags_execute \<lparr>data = [''art'', ''news''], db = demo_anon\<lparr>guild := Some \<lparr>tags = None\<rparr>\<rparr>,
        bot = demo_bot\<rparr> = JFalse
   \<and> set [''gaming'', ''art''] \<inter> set [''music''] = {}
   \<and> filters demo_tagged = Some [\<lparr>call_name = ''unknown'', call_data = []\<rparr>,
                                  \<lparr>call_name = ''tags'', call_data = [''music'']\<rparr>]
   \<and> tags_execute \<lparr>data = [''music''], db = demo_info, bot = demo_bot\<rparr> = JUndefined
   \<and> \<not> executeFilters demo_bot demo_tagged demo_info"
proof -
  let ?some = "\<lparr>data = [''art'', ''news''], db = demo_info, bot = demo_bot\<rparr>"
  let ?anon = "\<lparr>data = [''art'', ''news''], db = demo_anon, bot = demo_bot\<rparr>"
  let ?untagged = "\<lparr>data = [''art'', ''news''], db = demo_anon\<lparr>guild := Some \<lparr>tags = None\<rparr>\<rparr>,
        bot = demo_bot\<rparr>"
  let ?call = "\<lparr>call_name = ''tags'', call_data = [''music'']\<rparr>"
  let ?fs = "[\<lparr>call_name = ''unknown'', call_data = []\<rparr>, ?call]"
  have g1: "guild demo_info = Some \<lparr>tags = Some [''gaming'', ''art'']\<rparr>"
    by (simp add: demo_info_def)
  have g2: "guild demo_anon = None" by (simp add: demo_anon_def)
  have g3: "guild (demo_anon\<lparr>guild := Some \<lparr>tags = None\<rparr>\<rparr>) = Some \<lparr>tags = None\<rparr>" by simp
  have d: "set [''gaming'', ''art''] \<inter> set [''music''] = {}" by simp
  have f: "filters demo_tagged = Some ?fs" by (simp add: demo_tagged_def)
  from g1 have "\<exists>g ts. guild (db ?some) = Some g \<and> tags g = Some ts \<and> (\<exists>t \<in> set ts. t \<in> set (data ?some))"
    by simp
  with tags_filter_semantics [of ?some] have r1: "tags_execute ?some = JTrue" by blast
  from g2 tags_filter_semantics [of ?anon] have r2: "tags_execute ?anon = JFalse" by simp
  from g3 tags_filter_semantics [of ?untagged "\<lparr>tags = None\<rparr>"] have r3: "tags_execute ?untagged = JFalse"
    by simp
  from g1 d f tags_filter_semantics [of ?some "\<lparr>tags = None\<rparr>" demo_info
      "\<lparr>tags = Some [''gaming'', ''art'']\<rparr>" "[''gaming'', ''art'']" "[''music'']" demo_tagged ?fs ?call demo_bot]
  have r4: "tags_execute \<lparr>data = [''music''], db = demo_info, bot = demo_bot\<rparr> = JUndefined
      \<and> \<not> executeFilters demo_bot demo_tagged demo_info"
    by simp
  from g1 g2 g3 d f r1 r2 r3 r4 show ?thesis by blast
qed

end
